theory Spec2Isabelle
  imports Main
begin

section \<open>Strings and errors\<close>

text \<open>
  A Python \<open>str\<close> is a sequence of Unicode code points, so it is modelled as a list of
  natural numbers; a character is a \<open>str\<close> of length one, as in Python. ASCII literals
  are written through \<open>ascii\<close>; kana and kanji are written as their code points.
\<close>

type_synonym str = "nat list"

definition ascii :: "string \<Rightarrow> str" where
  "ascii s = map of_char s"

text \<open>The exceptions the modelled code can raise; \<open>ValueError\<close> carries its message template.\<close>

datatype error = ValueError string | KeyError | NotImplementedError | IndexError
  | TypeError | AttributeError | ImportError

text \<open>\<open>s[-k]\<close> for \<open>k \<ge> 1\<close>: the character \<open>k\<close> places from the end, or \<open>IndexError\<close>.\<close>

definition getitem_neg :: "str \<Rightarrow> nat \<Rightarrow> error + str" where
  "getitem_neg s k =
     (if 1 \<le> k \<and> k \<le> length s then Inr [s ! (length s - k)] else Inl IndexError)"

text \<open>\<open>a in b\<close> on two strings is Python's substring test.\<close>

fun startswith :: "str \<Rightarrow> str \<Rightarrow> bool" where
  "startswith t [] = True"
| "startswith [] (x # xs) = False"
| "startswith (y # ys) (x # xs) = (x = y \<and> startswith ys xs)"

fun str_in :: "str \<Rightarrow> str \<Rightarrow> bool" where
  "str_in s [] = (s = [])"
| "str_in s (y # ys) = (startswith (y # ys) s \<or> str_in s ys)"

section \<open>Character classes (sentence\_parser.py)\<close>

text \<open>
  A regular-expression character class is a list of inclusive code-point ranges.
  \<open>re.match\<close> of a one-class pattern succeeds iff the string is non-empty and its first
  character lies in the class.
\<close>

type_synonym char_class = "(nat \<times> nat) list"

definition in_class :: "char_class \<Rightarrow> nat \<Rightarrow> bool" where
  "in_class rs x = list_ex (\<lambda>(lo, hi). lo \<le> x \<and> x \<le> hi) rs"

definition re_match_class :: "char_class \<Rightarrow> str \<Rightarrow> bool" where
  "re_match_class rs s = (case s of [] \<Rightarrow> False | x # _ \<Rightarrow> in_class rs x)"

definition JpRE_hiragana_full :: char_class where
  "JpRE_hiragana_full = [(0x3041, 0x309F)]"

definition JpRE_kanji :: char_class where
  "JpRE_kanji = [(0x3400, 0x4DB5), (0x4E00, 0x9FCB), (0xF900, 0xFA6A)]"

definition is_kanji :: "str \<Rightarrow> bool" where
  "is_kanji ch = re_match_class JpRE_kanji ch"

text \<open>
  The names sentence\_parser.py binds at its top level, in the order of the file: two
  imports, the class \<open>JpRE\<close>, the sentinel \<open>SPACE\<close>, three classes and seven functions.
\<close>

definition sentence_parser_names :: "string list" where
  "sentence_parser_names =
     [''re'', ''Markup'', ''JpRE'', ''SPACE'', ''KanjiSequence'', ''Kanji'', ''Furigana'',
      ''is_kanji'', ''is_whitespace'', ''charseq'', ''group'', ''parse'', ''render_obj'',
      ''render_jp'']"

text \<open>
  \<open>from module import n1, n2, ...\<close>: the names are looked up in turn, and the first one
  the module does not bind raises \<open>ImportError\<close>.
\<close>

fun import_from :: "string list \<Rightarrow> string list \<Rightarrow> error + unit" where
  "import_from module_names [] = Inr ()"
| "import_from module_names (n # ns) =
     (if n \<in> set module_names then import_from module_names ns else Inl ImportError)"

text \<open>Line 1 of inflections.py: \<open>from vocab.sentence_parser import is_hiragana, is_kanji\<close>.\<close>

definition inflections_import :: "error + unit" where
  "inflections_import = import_from sentence_parser_names [''is_hiragana'', ''is_kanji'']"

section \<open>The kana table (inflections.py)\<close>

datatype VerbType = ICHIDAN | GODAN | IRREGULAR

text \<open>
  \<open>HiraganaLetter.rows\<close>: a dict literal from row name to a dict from column name to
  glyph, kept as association lists in the order of the source.
\<close>

definition rows :: "(str \<times> (str \<times> str) list) list" where
  "rows = [
    (ascii ''-'', [(ascii ''a'', [0x3042]), (ascii ''i'', [0x3044]), (ascii ''u'', [0x3046]), (ascii ''e'', [0x3048]), (ascii ''o'', [0x304A])]),
    (ascii ''k'', [(ascii ''a'', [0x304B]), (ascii ''i'', [0x304D]), (ascii ''u'', [0x304F]), (ascii ''e'', [0x3051]), (ascii ''o'', [0x3053])]),
    (ascii ''g'', [(ascii ''a'', [0x304C]), (ascii ''i'', [0x304E]), (ascii ''u'', [0x3050]), (ascii ''e'', [0x3052]), (ascii ''o'', [0x3054])]),
    (ascii ''s'', [(ascii ''a'', [0x3055]), (ascii ''i'', [0x3057]), (ascii ''u'', [0x3059]), (ascii ''e'', [0x305B]), (ascii ''o'', [0x305D])]),
    (ascii ''z'', [(ascii ''a'', [0x3056]), (ascii ''i'', [0x3058]), (ascii ''u'', [0x305A]), (ascii ''e'', [0x305C]), (ascii ''o'', [0x305E])]),
    (ascii ''t'', [(ascii ''a'', [0x305F]), (ascii ''i'', [0x3061]), (ascii ''u'', [0x3064]), (ascii ''e'', [0x3066]), (ascii ''o'', [0x3068])]),
    (ascii ''d'', [(ascii ''a'', [0x3060]), (ascii ''i'', [0x3062]), (ascii ''u'', [0x3065]), (ascii ''e'', [0x3067]), (ascii ''o'', [0x3069])]),
    (ascii ''n'', [(ascii ''a'', [0x306A]), (ascii ''i'', [0x306B]), (ascii ''u'', [0x306C]), (ascii ''e'', [0x306D]), (ascii ''o'', [0x306E])]),
    (ascii ''h'', [(ascii ''a'', [0x306F]), (ascii ''i'', [0x3072]), (ascii ''u'', [0x3075]), (ascii ''e'', [0x3078]), (ascii ''o'', [0x307B])]),
    (ascii ''b'', [(ascii ''a'', [0x3070]), (ascii ''i'', [0x3073]), (ascii ''u'', [0x3076]), (ascii ''e'', [0x3079]), (ascii ''o'', [0x307C])]),
    (ascii ''p'', [(ascii ''a'', [0x3071]), (ascii ''i'', [0x3074]), (ascii ''u'', [0x3077]), (ascii ''e'', [0x307A]), (ascii ''o'', [0x307D])]),
    (ascii ''m'', [(ascii ''a'', [0x307E]), (ascii ''i'', [0x307F]), (ascii ''u'', [0x3080]), (ascii ''e'', [0x3081]), (ascii ''o'', [0x3082])]),
    (ascii ''r'', [(ascii ''a'', [0x3089]), (ascii ''i'', [0x308A]), (ascii ''u'', [0x308B]), (ascii ''e'', [0x308C]), (ascii ''o'', [0x308D])]),
    (ascii ''y'', [(ascii ''a'', [0x3084]), (ascii ''u'', [0x3086]), (ascii ''o'', [0x3088])]),
    (ascii ''w'', [(ascii ''a'', [0x308F]), (ascii ''o'', [0x3092])]),
    (ascii ''nn'', [(ascii ''n'', [0x3093])])
  ]"

definition dakuten_rules :: "(str \<times> str) list" where
  "dakuten_rules = [(ascii ''k'', ascii ''g''), (ascii ''s'', ascii ''z''),
                    (ascii ''t'', ascii ''d''), (ascii ''h'', ascii ''b'')]"

definition handakuten_rules :: "(str \<times> str) list" where
  "handakuten_rules = [(ascii ''h'', ascii ''p'')]"

text \<open>
  \<open>by_letter\<close> is filled by two nested loops over \<open>rows\<close>, each iteration storing
  \<open>by_letter[letter] = (row_name, ending)\<close>.
\<close>

definition by_letter :: "str \<rightharpoonup> (str \<times> str)" where
  "by_letter =
     fold (\<lambda>(row_name, row) m.
             fold (\<lambda>(ending, letter) m'. m'(letter \<mapsto> (row_name, ending))) row m)
          rows Map.empty"

record HiraganaLetter =
  hl_c :: str
  hl_row :: str
  hl_ending :: str
  hl_dakuten :: "string option"

text \<open>\<open>HiraganaLetter.__init__\<close>: the lookup in \<open>by_letter\<close> raises \<open>KeyError\<close> on a miss.\<close>

definition HiraganaLetter_init :: "str \<Rightarrow> error + HiraganaLetter" where
  "HiraganaLetter_init ch =
     (case by_letter ch of
        None \<Rightarrow> Inl KeyError
      | Some (r, e) \<Rightarrow>
          Inr \<lparr>hl_c = ch, hl_row = r, hl_ending = e,
               hl_dakuten =
                 (if r \<in> set (map snd dakuten_rules) then Some ''dakuten''
                  else if r \<in> set (map snd handakuten_rules) then Some ''handakuten''
                  else None)\<rparr>)"

text \<open>\<open>HiraganaLetter.rows[row][ending]\<close>, \<open>KeyError\<close> on either miss.\<close>

definition rows_lookup :: "str option \<Rightarrow> str option \<Rightarrow> error + str" where
  "rows_lookup r e =
     (case r of
        None \<Rightarrow> Inl KeyError
      | Some rn \<Rightarrow>
          (case map_of rows rn of
             None \<Rightarrow> Inl KeyError
           | Some rw \<Rightarrow>
               (case e of
                  None \<Rightarrow> Inl KeyError
                | Some en \<Rightarrow>
                    (case map_of rw en of None \<Rightarrow> Inl KeyError | Some g \<Rightarrow> Inr g))))"

text \<open>
  \<open>HiraganaLetter.from_str\<close>. The \<open>try\<close> block spans the table lookup and the
  constructor, and turns a \<open>KeyError\<close> of either into a \<open>ValueError\<close>; the constructor
  call of the first branch is outside it. The predicate \<open>is_hiragana\<close> that the first
  test calls has no definition in the repository, so it is a parameter here and nothing
  is assumed of it.
\<close>

definition from_str :: "(str \<Rightarrow> bool) \<Rightarrow> str \<Rightarrow> error + HiraganaLetter" where
  "from_str is_hiragana s =
     (if length s = 1 \<and> is_hiragana s then HiraganaLetter_init s
      else if length s = 0 then Inl (ValueError ''empty romaji'')
      else
        let (r, e) =
          (if s = ascii ''shi'' then (Some (ascii ''s''), Some (ascii ''i''))
           else if s = ascii ''chi'' then (Some (ascii ''t''), Some (ascii ''i''))
           else if s = ascii ''tsu'' then (Some (ascii ''t''), Some (ascii ''u''))
           else if s = ascii ''fu'' then (Some (ascii ''h''), Some (ascii ''u''))
           else if s = ascii ''ji'' then (Some (ascii ''z''), Some (ascii ''i''))
           else if s = ascii ''n'' then (Some (ascii ''nn''), Some (ascii ''n''))
           else if length s = 1 then (Some (ascii ''-''), Some s)
           else if length s = 2 then (Some [s ! 0], Some [s ! 1])
           else (None, None))
        in (case rows_lookup r e of
              Inl KeyError \<Rightarrow> Inl (ValueError ''Cannot transform to a kana letter'')
            | Inl err \<Rightarrow> Inl err
            | Inr g \<Rightarrow>
                (case HiraganaLetter_init g of
                   Inl KeyError \<Rightarrow> Inl (ValueError ''Cannot transform to a kana letter'')
                 | Inl err \<Rightarrow> Inl err
                 | Inr l \<Rightarrow> Inr l)))"

text \<open>
  \<open>with_ending\<close>: the guard is \<open>ending not in "aiueo"\<close>, a substring test; the lookup
  after it is not inside any \<open>try\<close>.
\<close>

definition with_ending :: "HiraganaLetter \<Rightarrow> str \<Rightarrow> error + HiraganaLetter" where
  "with_ending l e =
     (if \<not> str_in e (ascii ''aiueo'') then Inl (ValueError ''Ending must be one of aiueo'')
      else (case rows_lookup (Some (hl_row l)) (Some e) of
              Inl err \<Rightarrow> Inl err
            | Inr g \<Rightarrow> HiraganaLetter_init g))"

definition romaji :: "HiraganaLetter \<Rightarrow> str" where
  "romaji l =
     (if hl_c l = [0x3057] then ascii ''shi''
      else if hl_c l = [0x3061] then ascii ''chi''
      else if hl_c l = [0x3064] then ascii ''tsu''
      else if hl_c l = [0x3075] then ascii ''fu''
      else if hl_c l = [0x3058] then ascii ''ji''
      else if hl_c l = [0x3062] then ascii ''ji''
      else if hl_c l = [0x3065] then ascii ''zu''
      else concat [hl_row l, hl_ending l])"

text \<open>
  \<open>has_ichidan_ending\<close> returns \<open>False\<close>, \<open>True\<close> or \<open>None\<close>: the result is a
  \<open>bool option\<close>, \<open>None\<close> standing for Python's \<open>None\<close>. The constructor call of the
  last branch raises \<open>KeyError\<close> when \<open>verb[-2]\<close> is not a glyph of the table.
\<close>

definition has_ichidan_ending :: "str \<Rightarrow> error + bool option" where
  "has_ichidan_ending verb =
     (if length verb < 2 then Inr (Some False)
      else
        (case getitem_neg verb 2 of
           Inl err \<Rightarrow> Inl err
         | Inr c2 \<Rightarrow>
             (case getitem_neg verb 1 of
                Inl err \<Rightarrow> Inl err
              | Inr c1 \<Rightarrow>
                  if is_kanji c2 \<and> c1 = [0x308B] then Inr None
                  else
                    (case HiraganaLetter_init c2 of
                       Inl err \<Rightarrow> Inl err
                     | Inr l \<Rightarrow>
                         Inr (Some (str_in (hl_ending l) (ascii ''ie'') \<and> c1 = [0x308B]))))))"

section \<open>Verb inflection (inflections.py)\<close>

datatype Inflection = POLITE | PAST | TE | POTENTIAL

record Inflections =
  base_verb :: str
  verb_type :: VerbType
  applied_inflections :: "Inflection set"
  inflection :: "Inflection option"

text \<open>The nine dictionary-form endings, the string literal of the constructor.\<close>

definition verb_endings :: str where
  "verb_endings = [0x308B, 0x3064, 0x3046, 0x304F, 0x3059, 0x3076, 0x3080, 0x306C, 0x3050]"

text \<open>
  \<open>Inflections.__init__\<close>. \<open>not has_ichidan_ending(base_verb)\<close> is true for \<open>False\<close>
  and for \<open>None\<close>, false for \<open>True\<close> only; the call is made only for \<open>ICHIDAN\<close>.
\<close>

definition Inflections_init ::
  "str option \<Rightarrow> VerbType \<Rightarrow> Inflection set option \<Rightarrow> Inflection option \<Rightarrow> error + Inflections"
where
  "Inflections_init bv vt ai infl =
     (case bv of
        None \<Rightarrow> Inl (ValueError ''Verb is empty or too short'')
      | Some v \<Rightarrow>
          if length v \<le> 1 then Inl (ValueError ''Verb is empty or too short'')
          else
            (case getitem_neg v 1 of
               Inl err \<Rightarrow> Inl err
             | Inr c1 \<Rightarrow>
                 if \<not> str_in c1 verb_endings
                 then Inl (ValueError ''Final kana letter is no valid verb ending'')
                 else
                   (case (if vt = ICHIDAN
                          then (case has_ichidan_ending v of
                                  Inl err \<Rightarrow> Inl err
                                | Inr r \<Rightarrow> Inr (r \<noteq> Some True))
                          else Inr False) of
                      Inl err \<Rightarrow> Inl err
                    | Inr True \<Rightarrow> Inl (ValueError ''verb has no ichidan ending'')
                    | Inr False \<Rightarrow>
                        (let ais = (case ai of None \<Rightarrow> {} | Some a \<Rightarrow> a) in
                         if ais \<noteq> {} \<and> infl \<noteq> None
                         then Inl (ValueError
                                ''inflection must be None when no inflections are applied'')
                         else Inr \<lparr>base_verb = v, verb_type = vt,
                                   applied_inflections = ais, inflection = infl\<rparr>))))"

text \<open>\<open>Inflections.te\<close>; \<open>base_verb[:-1]\<close> is \<open>butlast\<close>.\<close>

definition te :: "Inflections \<Rightarrow> error + str" where
  "te self =
     (if verb_type self = ICHIDAN then Inr (butlast (base_verb self) @ [0x3066])
      else if verb_type self = GODAN then
        (case getitem_neg (base_verb self) 1 of
           Inl err \<Rightarrow> Inl err
         | Inr c1 \<Rightarrow>
             if str_in c1 [0x3046, 0x3064, 0x308B]
               then Inr (butlast (base_verb self) @ [0x3063, 0x3066])
             else if str_in c1 [0x304F]
               then Inr (butlast (base_verb self) @ [0x3044, 0x3066])
             else if str_in c1 [0x3059]
               then Inr (butlast (base_verb self) @ [0x3057, 0x3066])
             else if str_in c1 [0x3076, 0x3080, 0x306C]
               then Inr (butlast (base_verb self) @ [0x3093, 0x3067])
             else if str_in c1 [0x3050]
               then Inr (butlast (base_verb self) @ [0x3044, 0x3067])
             else Inl (ValueError ''invalid verb ending''))
      else Inl NotImplementedError)"

section \<open>Tokens and nodes (sentence\_parser.py)\<close>

text \<open>
  The lexer's tokens and the grouper's nodes are Python objects of a few classes:
  a \<open>str\<close>, a \<open>Kanji\<close>, a \<open>Furigana\<close>, a \<open>KanjiSequence\<close> (a list of objects and an
  optional furigana object), the \<open>SPACE\<close> sentinel, or an object of any other type.
\<close>

datatype obj =
    Str str
  | Kanji str
  | Furigana str
  | KanjiSequence "obj list" "obj option"
  | SPACE
  | Other

definition jisho_link :: "str \<Rightarrow> str" where
  "jisho_link character = ascii ''https://jisho.org/search/'' @ character @ ascii ''%20%23kanji''"

text \<open>The class \<open>\s\<close> of Python 3 on \<open>str\<close> patterns.\<close>

definition re_whitespace :: char_class where
  "re_whitespace = [(0x09, 0x0D), (0x1C, 0x20), (0x85, 0x85), (0xA0, 0xA0), (0x1680, 0x1680),
     (0x2000, 0x200A), (0x2028, 0x2029), (0x202F, 0x202F), (0x205F, 0x205F), (0x3000, 0x3000)]"

definition is_whitespace :: "str \<Rightarrow> bool" where
  "is_whitespace ch = re_match_class re_whitespace ch"

text \<open>\<open>charseq\<close>: \<open>re.match\<close> and \<open>join\<close> raise \<open>TypeError\<close> on an element that is no \<open>str\<close>.\<close>

fun charseq :: "obj list \<Rightarrow> error + str" where
  "charseq [] = Inr []"
| "charseq (Str ch # buf) =
     (case charseq buf of
        Inl err \<Rightarrow> Inl err
      | Inr r \<Rightarrow> Inr (if is_whitespace ch then r else ch @ r))"
| "charseq (_ # buf) = Inl TypeError"

section \<open>The grouper\<close>

text \<open>
  The loop of \<open>group\<close> keeps three variables, \<open>state\<close>, \<open>groups\<close> and \<open>buf\<close>;
  \<open>group_step\<close> is one iteration of its body.
\<close>

type_synonym group_state = "string \<times> obj list \<times> obj list"

definition group_step :: "group_state \<Rightarrow> obj \<Rightarrow> error + group_state" where
  "group_step st token =
     (case st of (state, groups, buf) \<Rightarrow>
        if state = ''empty'' then
          (case token of
             Str _ \<Rightarrow> Inr (''buffer str'', groups, [token])
           | Kanji _ \<Rightarrow> Inr (''buffer kan'', groups, [token])
           | SPACE \<Rightarrow> Inr (state, groups @ [SPACE], buf)
           | Furigana _ \<Rightarrow> Inr (state, groups, buf)
           | _ \<Rightarrow> Inl (ValueError ''invalid state''))
        else if state = ''buffer str'' then
          (case token of
             Str _ \<Rightarrow> Inr (state, groups, buf @ [token])
           | Kanji _ \<Rightarrow>
               (case charseq buf of
                  Inl err \<Rightarrow> Inl err
                | Inr s \<Rightarrow> Inr (''buffer kan'', groups @ [Str s], [token]))
           | SPACE \<Rightarrow>
               (case charseq buf of
                  Inl err \<Rightarrow> Inl err
                | Inr s \<Rightarrow> Inr (''empty'', groups @ [Str s] @ [SPACE], []))
           | Furigana _ \<Rightarrow> Inr (state, groups, buf)
           | _ \<Rightarrow> Inl (ValueError ''invalid state''))
        else if state = ''buffer kan'' then
          (case token of
             Str _ \<Rightarrow> Inr (''buffer str'', groups @ [KanjiSequence buf None], [token])
           | Kanji _ \<Rightarrow> Inr (state, groups, buf @ [token])
           | Furigana _ \<Rightarrow> Inr (''empty'', groups @ [KanjiSequence buf (Some token)], [])
           | SPACE \<Rightarrow> Inr (''empty'', groups @ [KanjiSequence buf None] @ [SPACE], [])
           | _ \<Rightarrow> Inl (ValueError ''invalid state''))
        else Inl (ValueError ''invalid state''))"

fun group_loop :: "group_state \<Rightarrow> obj list \<Rightarrow> error + group_state" where
  "group_loop st [] = Inr st"
| "group_loop st (token # tokens) =
     (case group_step st token of
        Inl err \<Rightarrow> Inl err
      | Inr st' \<Rightarrow> group_loop st' tokens)"

definition group :: "obj list \<Rightarrow> error + obj list" where
  "group tokens =
     (case group_loop (''empty'', [], []) tokens of
        Inl err \<Rightarrow> Inl err
      | Inr (state, groups, buf) \<Rightarrow>
          if state = ''empty'' then Inr groups
          else if state = ''buffer str'' then
            (case charseq buf of
               Inl err \<Rightarrow> Inl err
             | Inr s \<Rightarrow> Inr (groups @ [Str s]))
          else if state = ''buffer kan'' then Inr (groups @ [KanjiSequence buf None])
          else Inl (ValueError ''invalid state''))"

section \<open>The lexer\<close>

text \<open>
  \<open>re.search(r"^\^(?P<furigana>[hiragana]*)", text, 0)\<close>: the pattern is anchored at the
  start, needs a caret there and takes the longest run of hiragana after it. The result
  is the pair of group 0 and the group \<open>furigana\<close>, or \<open>None\<close>.
\<close>

definition re_search_furigana :: "str \<Rightarrow> (str \<times> str) option" where
  "re_search_furigana text =
     (case text of
        [] \<Rightarrow> None
      | x # xs \<Rightarrow>
          if x = 0x5E
          then (let f = takeWhile (in_class JpRE_hiragana_full) xs in Some (x # f, f))
          else None)"

text \<open>
  The \<open>while\<close> loop of \<open>parse\<close>, with \<open>parsed_sequence\<close> as the accumulator. Every
  iteration shortens \<open>text\<close>, which is the termination measure.
\<close>

function parse_loop :: "str \<Rightarrow> obj list \<Rightarrow> error + obj list" where
  "parse_loop text parsed_sequence =
     (if length text = 0 then Inr parsed_sequence
      else if is_kanji [hd text] then parse_loop (tl text) (parsed_sequence @ [Kanji [hd text]])
      else if [hd text] = ascii ''^'' then
        (case re_search_furigana text of
           Some (whole, furigana) \<Rightarrow>
             parse_loop (drop (length whole) text) (parsed_sequence @ [Furigana furigana])
         | None \<Rightarrow> Inl (ValueError ''no match''))
      else if [hd text] = ascii ''~'' then parse_loop (tl text) (parsed_sequence @ [SPACE])
      else parse_loop (tl text) (parsed_sequence @ [Str [hd text]]))"
  by pat_completeness auto
termination
  by (relation "measure (\<lambda>(t, _). length t)")
     (auto simp: re_search_furigana_def Let_def split: list.splits if_splits)

declare parse_loop.simps [simp del]

definition parse :: "str \<Rightarrow> error + obj list" where
  "parse text = parse_loop text []"

section \<open>The renderer\<close>

text \<open>
  \<open>render_obj\<close>, with \<open>render_all\<close> for \<open>"".join([render_obj(k) for k in ...])\<close>: the
  comprehension stops at the first element that raises. A furigana object without a
  \<open>text\<close> attribute raises \<open>AttributeError\<close>.
\<close>

fun render_obj :: "obj \<Rightarrow> error + str"
  and render_all :: "obj list \<Rightarrow> error + str" where
  "render_obj (Str s) = Inr s"
| "render_obj (Kanji character) =
     Inr (ascii ''<a href='' @ [0x22] @ jisho_link character @ [0x22] @ ascii ''>''
          @ character @ ascii ''</a>'')"
| "render_obj (KanjiSequence kanji furigana) =
     (case furigana of
        None \<Rightarrow> render_all kanji
      | Some fo \<Rightarrow>
          (case render_all kanji of
             Inl err \<Rightarrow> Inl err
           | Inr body \<Rightarrow>
               (case fo of
                  Furigana t \<Rightarrow>
                    Inr (ascii ''<ruby>'' @ body @ ascii ''<rt>'' @ t @ ascii ''</rt><ruby>'')
                | _ \<Rightarrow> Inl AttributeError)))"
| "render_obj SPACE = Inr (ascii ''&nbsp;'')"
| "render_obj (Furigana _) = Inl (ValueError ''Cannot render object'')"
| "render_obj Other = Inl (ValueError ''Cannot render object'')"
| "render_all [] = Inr []"
| "render_all (k # ks) =
     (case render_obj k of
        Inl err \<Rightarrow> Inl err
      | Inr s \<Rightarrow> (case render_all ks of Inl err \<Rightarrow> Inl err | Inr r \<Rightarrow> Inr (s @ r)))"

definition render_jp :: "str \<Rightarrow> error + str" where
  "render_jp text =
     (case parse text of
        Inl err \<Rightarrow> Inl err
      | Inr tokens \<Rightarrow> (case group tokens of Inl err \<Rightarrow> Inl err | Inr gs \<Rightarrow> render_all gs))"

section \<open>Notions used to state the properties\<close>

text \<open>The entries of the forward table, row by row, and their glyphs.\<close>

definition forward_entries :: "(str \<times> str \<times> str) list" where
  "forward_entries =
     concat (map (\<lambda>(row_name, row). map (\<lambda>(ending, letter). (row_name, ending, letter)) row)
                 rows)"

definition forward_glyphs :: "str list" where
  "forward_glyphs = map (\<lambda>(row_name, ending, letter). letter) forward_entries"

text \<open>
  A glyph looked up, romanized, and the romanization parsed again, for a given
  \<open>is_hiragana\<close>.
\<close>

definition roundtrip :: "(str \<Rightarrow> bool) \<Rightarrow> str \<Rightarrow> error + HiraganaLetter" where
  "roundtrip is_hiragana g =
     (case HiraganaLetter_init g of
        Inl err \<Rightarrow> Inl err
      | Inr l \<Rightarrow> from_str is_hiragana (romaji l))"


text \<open>The anchor-link fragment of one kanji character.\<close>

definition anchor :: "str \<Rightarrow> str" where
  "anchor character =
     ascii ''<a href='' @ [0x22] @ ascii ''https://jisho.org/search/'' @ character
     @ ascii ''%20%23kanji'' @ [0x22] @ ascii ''>'' @ character @ ascii ''</a>''"

section \<open>Properties of the character classes\<close>

text \<open>
  Claim C5 says that both \<open>is_hiragana\<close> and \<open>is_kanji\<close> are provided and cannot fail.
  \<open>is_kanji\<close> is: on a one-character string it holds exactly on the three ideograph
  ranges of \<open>JpRE.kanji\<close>. \<open>is_hiragana\<close> is not: sentence\_parser.py binds no such
  name, and the import of line 1 of inflections.py raises \<open>ImportError\<close>.
\<close>

theorem is_hiragana_not_provided:
  "''is_hiragana'' \<notin> set sentence_parser_names
   \<and> ''is_kanji'' \<in> set sentence_parser_names
   \<and> inflections_import = Inl ImportError
   \<and> (is_kanji [x] \<longleftrightarrow>
        (0x3400 \<le> x \<and> x \<le> 0x4DB5) \<or> (0x4E00 \<le> x \<and> x \<le> 0x9FCB) \<or> (0xF900 \<le> x \<and> x \<le> 0xFA6A))"
  by (simp add: inflections_import_def sentence_parser_names_def is_kanji_def
      re_match_class_def in_class_def JpRE_kanji_def)

section \<open>Properties of the kana table\<close>

lemma by_letter_map_of:
  "by_letter =
     map_of (rev (map (\<lambda>(row_name, ending, letter). (letter, (row_name, ending)))
                      forward_entries))"
  by (simp add: by_letter_def forward_entries_def rows_def)

lemma length_forward_glyphs: "length forward_glyphs = 71"
  by (simp add: forward_glyphs_def forward_entries_def rows_def)

lemma distinct_forward_glyphs: "distinct forward_glyphs"
  by (simp add: forward_glyphs_def forward_entries_def rows_def)

lemma dom_by_letter: "dom by_letter = set forward_glyphs"
proof -
  have "fst \<circ> (\<lambda>(row_name :: str, ending :: str, letter :: str). (letter, (row_name, ending)))
        = (\<lambda>(row_name, ending, letter). letter)"
    by (auto simp: fun_eq_iff)
  then show ?thesis
    unfolding by_letter_map_of dom_map_of_conv_image_fst forward_glyphs_def
    by (simp only: set_rev set_map image_image[symmetric] image_comp)
qed

lemma card_dom_by_letter: "card (dom by_letter) = 71"
  using distinct_card [OF distinct_forward_glyphs]
  by (simp add: dom_by_letter length_forward_glyphs)

lemma by_letter_forward_entries:
  "map (\<lambda>(row_name, ending, letter). by_letter letter) forward_entries
   = map (\<lambda>(row_name, ending, letter). Some (row_name, ending)) forward_entries"
  by (simp add: by_letter_def forward_entries_def rows_def)

text \<open>
  Claim C7, as stated, gives the forward table 14 rows. The dict literal has 16.
\<close>

theorem rows_not_fourteen: "length rows \<noteq> 14"
  by (simp add: rows_def)

text \<open>
  Claim C7, amended. The forward table has exactly 16 rows, among them the vowel-only row
  \<open>-\<close> and the row \<open>nn\<close>; it holds 71 glyphs, all different; the reverse table
  \<open>by_letter\<close> has exactly these 71 glyphs as its keys and sends the glyph of every
  forward entry back to the row and column of that entry.
\<close>

theorem kana_table_sizes:
  "length rows = 16
   \<and> map_of rows (ascii ''-'') \<noteq> None \<and> map_of rows (ascii ''nn'') \<noteq> None
   \<and> length forward_glyphs = 71 \<and> distinct forward_glyphs
   \<and> dom by_letter = set forward_glyphs \<and> card (dom by_letter) = 71
   \<and> map (\<lambda>(row_name, ending, letter). by_letter letter) forward_entries
       = map (\<lambda>(row_name, ending, letter). Some (row_name, ending)) forward_entries"
proof -
  have "length rows = 16" by (simp add: rows_def)
  moreover have "map_of rows (ascii ''-'') \<noteq> None" by (simp add: rows_def ascii_def)
  moreover have "map_of rows (ascii ''nn'') \<noteq> None" by (simp add: rows_def ascii_def)
  ultimately show ?thesis
    using length_forward_glyphs distinct_forward_glyphs dom_by_letter card_dom_by_letter
      by_letter_forward_entries
    by blast
qed

section \<open>Properties of the kana engine\<close>

lemma by_letter_entry:
  "by_letter g = Some (r, e) \<Longrightarrow> (r, e, g) \<in> set forward_entries"
  unfolding by_letter_map_of by (drule map_of_SomeD) auto

lemma roundtrip_entries:
  "list_all (\<lambda>(r, e, g). by_letter g = Some (r, e) \<longrightarrow> g \<notin> {[0x3062], [0x3065], [0x3093]} \<longrightarrow>
      (\<exists>l. HiraganaLetter_init g = Inr l \<and> roundtrip ih g = Inr l)) forward_entries"
  by (simp add: forward_entries_def roundtrip_def from_str_def romaji_def rows_lookup_def
     HiraganaLetter_init_def dakuten_rules_def handakuten_rules_def rows_def ascii_def)

lemma entries_not_kanji:
  "list_all (\<lambda>(r, e, g). \<not> is_kanji g \<and> (str_in e (ascii ''ie'') \<longleftrightarrow> e = ascii ''i'' \<or> e = ascii ''e''))
     forward_entries"
  by (simp add: forward_entries_def rows_def ascii_def is_kanji_def re_match_class_def in_class_def JpRE_kanji_def)

lemma str_in_single: "str_in [x] ys \<longleftrightarrow> x \<in> set ys"
  by (induction ys) auto

lemma getitem_neg_Suc0: "v \<noteq> [] \<Longrightarrow> getitem_neg v (Suc 0) = Inr [last v]"
  by (simp add: getitem_neg_def last_conv_nth Suc_le_eq)

lemma getitem_neg_1: "v \<noteq> [] \<Longrightarrow> getitem_neg v 1 = Inr [last v]"
  using getitem_neg_Suc0 by simp

lemma getitem_neg_2: "2 \<le> length v \<Longrightarrow> getitem_neg v 2 = Inr [v ! (length v - 2)]"
  by (simp add: getitem_neg_def)

lemmas getitem_neg_last = getitem_neg_Suc0 getitem_neg_1 getitem_neg_2

lemma irregular_romaji:
  "map (\<lambda>g. map_sum id romaji (HiraganaLetter_init g))
       [[0x3057], [0x3061], [0x3064], [0x3075], [0x3058], [0x3062], [0x3065]]
   = map (\<lambda>s. Inr (ascii s)) [''shi'', ''chi'', ''tsu'', ''fu'', ''ji'', ''ji'', ''zu'']"
  by (simp add: romaji_def HiraganaLetter_init_def by_letter_def rows_def ascii_def
      dakuten_rules_def handakuten_rules_def)

lemma irregular_from_str:
  "map (\<lambda>s. from_str ih (ascii s)) [''shi'', ''chi'', ''tsu'', ''fu'', ''ji'', ''zu'']
   = map HiraganaLetter_init [[0x3057], [0x3061], [0x3064], [0x3075], [0x3058], [0x305A]]"
  by (simp add: from_str_def rows_lookup_def HiraganaLetter_init_def by_letter_def rows_def
      ascii_def dakuten_rules_def handakuten_rules_def)

text \<open>
  The glyphs U+3062 (di) and U+3065 (du) are romanized as \<open>ji\<close> and \<open>zu\<close>, the
  spellings of the z row, and so parse to the letters of zi and zu.
\<close>

lemma roundtrip_di_du:
  "roundtrip ih [0x3062] = HiraganaLetter_init [0x3058]
   \<and> roundtrip ih [0x3065] = HiraganaLetter_init [0x305A]"
  by (simp add: roundtrip_def from_str_def romaji_def rows_lookup_def HiraganaLetter_init_def
      by_letter_def rows_def ascii_def dakuten_rules_def handakuten_rules_def)

text \<open>
  Every glyph of the table other than di, du and the syllabic n is looked up to a letter,
  and parsing the romanization of that letter gives the same letter back, whatever
  \<open>is_hiragana\<close> is.
\<close>

lemma roundtrip_regular:
  assumes "g \<in> dom by_letter" and "g \<notin> {[0x3062], [0x3065], [0x3093]}"
  shows "\<exists>l. HiraganaLetter_init g = Inr l \<and> roundtrip ih g = Inr l"
proof -
  from assms(1) obtain r e where re: "by_letter g = Some (r, e)" by auto
  then have "(r, e, g) \<in> set forward_entries" by (rule by_letter_entry)
  with roundtrip_entries [of ih] have
    "by_letter g = Some (r, e) \<longrightarrow> g \<notin> {[0x3062], [0x3065], [0x3093]} \<longrightarrow>
      (\<exists>l. HiraganaLetter_init g = Inr l \<and> roundtrip ih g = Inr l)"
    by (auto simp: list_all_iff)
  with re assms(2) show ?thesis by blast
qed

text \<open>
  Claim C3 says that every glyph of the table round-trips, the spellings of di and du
  apart. The glyph U+3093 (syllabic n) is in the table with row \<open>nn\<close> and column \<open>n\<close>;
  \<open>romaji\<close> has no case for it and joins the two to \<open>nnn\<close>, while \<open>from_str\<close> knows
  the letter as \<open>n\<close> and rejects \<open>nnn\<close> with \<open>ValueError\<close>. This holds whatever
  \<open>is_hiragana\<close> is, since \<open>nnn\<close> has three characters.
\<close>

theorem roundtrip_syllabic_n:
  "by_letter [0x3093] = Some (ascii ''nn'', ascii ''n'')
   \<and> map_sum id romaji (HiraganaLetter_init [0x3093]) = Inr (ascii ''nnn'')
   \<and> from_str ih (ascii ''nnn'') = Inl (ValueError ''Cannot transform to a kana letter'')
   \<and> roundtrip ih [0x3093] = Inl (ValueError ''Cannot transform to a kana letter'')"
  by (simp add: roundtrip_def from_str_def romaji_def rows_lookup_def HiraganaLetter_init_def
      by_letter_def rows_def ascii_def dakuten_rules_def handakuten_rules_def)

text \<open>
  Where \<open>has_ichidan_ending\<close> returns: \<open>False\<close> on a verb shorter than two characters;
  \<open>None\<close> when the second-to-last character is an ideograph and the last one is U+308B
  (ru); and, when the second-to-last character is a glyph of the kana table, \<open>True\<close> iff
  the column of that glyph is \<open>i\<close> or \<open>e\<close> and the last character is ru.
\<close>

lemma has_ichidan_ending_returns:
  "(length verb < 2 \<longrightarrow> has_ichidan_ending verb = Inr (Some False))
   \<and> (2 \<le> length verb \<and> is_kanji [verb ! (length verb - 2)] \<and> last verb = 0x308B
        \<longrightarrow> has_ichidan_ending verb = Inr None)
   \<and> (2 \<le> length verb \<and> by_letter [verb ! (length verb - 2)] = Some (r, e)
        \<longrightarrow> has_ichidan_ending verb
            = Inr (Some ((e = ascii ''i'' \<or> e = ascii ''e'') \<and> last verb = 0x308B)))"
proof (intro conjI impI)
  show "length verb < 2 \<Longrightarrow> has_ichidan_ending verb = Inr (Some False)"
    by (simp add: has_ichidan_ending_def)
next
  assume a: "2 \<le> length verb \<and> is_kanji [verb ! (length verb - 2)] \<and> last verb = 0x308B"
  then have "verb \<noteq> []" by auto
  with a show "has_ichidan_ending verb = Inr None"
    by (simp add: has_ichidan_ending_def getitem_neg_last)
next
  assume a: "2 \<le> length verb \<and> by_letter [verb ! (length verb - 2)] = Some (r, e)"
  then have ne: "verb \<noteq> []" by auto
  from a have "(r, e, [verb ! (length verb - 2)]) \<in> set forward_entries"
    by (simp add: by_letter_entry)
  with entries_not_kanji have nk: "\<not> is_kanji [verb ! (length verb - 2)]"
    and ie: "str_in e (ascii ''ie'') \<longleftrightarrow> e = ascii ''i'' \<or> e = ascii ''e''"
    by (auto simp: list_all_iff)
  from a ne nk ie show "has_ichidan_ending verb
            = Inr (Some ((e = ascii ''i'' \<or> e = ascii ''e'') \<and> last verb = 0x308B))"
    by (simp add: has_ichidan_ending_def getitem_neg_last HiraganaLetter_init_def)
qed

text \<open>
  Claim C9. After a successful construction the record holds the verb and type given, the
  verb ends in one of the nine endings, and \<open>te\<close> returns: for \<open>ICHIDAN\<close> the verb
  without its last character followed by te; for \<open>GODAN\<close> the stem followed by tte after
  u, tu, ru, by ite after ku, by site after su, by nde after bu, mu, nu, by ide after gu;
  for \<open>IRREGULAR\<close> it raises \<open>NotImplementedError\<close>. The \<open>ValueError\<close> of the last
  \<open>GODAN\<close> branch is never raised.
\<close>
theorem te_after_init:
  assumes "Inflections_init bv vt ai infl = Inr r"
  shows "bv = Some (base_verb r) \<and> vt = verb_type r
    \<and> last (base_verb r) \<in> {0x308B, 0x3064, 0x3046, 0x304F, 0x3059, 0x3076, 0x3080, 0x306C, 0x3050}
    \<and> (verb_type r = ICHIDAN \<longrightarrow> te r = Inr (butlast (base_verb r) @ [0x3066]))
    \<and> (verb_type r = GODAN \<and> last (base_verb r) \<in> {0x3046, 0x3064, 0x308B}
          \<longrightarrow> te r = Inr (butlast (base_verb r) @ [0x3063, 0x3066]))
    \<and> (verb_type r = GODAN \<and> last (base_verb r) = 0x304F
          \<longrightarrow> te r = Inr (butlast (base_verb r) @ [0x3044, 0x3066]))
    \<and> (verb_type r = GODAN \<and> last (base_verb r) = 0x3059
          \<longrightarrow> te r = Inr (butlast (base_verb r) @ [0x3057, 0x3066]))
    \<and> (verb_type r = GODAN \<and> last (base_verb r) \<in> {0x3076, 0x3080, 0x306C}
          \<longrightarrow> te r = Inr (butlast (base_verb r) @ [0x3093, 0x3067]))
    \<and> (verb_type r = GODAN \<and> last (base_verb r) = 0x3050
          \<longrightarrow> te r = Inr (butlast (base_verb r) @ [0x3044, 0x3067]))
    \<and> (verb_type r = IRREGULAR \<longrightarrow> te r = Inl NotImplementedError)
    \<and> te r \<noteq> Inl (ValueError ''invalid verb ending'')"
proof -
  from assms obtain v where bv: "bv = Some v" and len: "\<not> length v \<le> 1"
    by (auto simp: Inflections_init_def split: option.splits if_splits)
  then have ne: "v \<noteq> []" by auto
  from assms bv len ne have e: "last v \<in> set verb_endings"
    by (auto simp: Inflections_init_def getitem_neg_last str_in_single split: if_splits)
  from assms bv len ne have r: "base_verb r = v" "verb_type r = vt"
    by (auto simp: Inflections_init_def getitem_neg_last Let_def split: if_splits sum.splits bool.splits)
  have g: "getitem_neg (base_verb r) (Suc 0) = Inr [last v]"
    using ne r by (simp add: getitem_neg_Suc0)
  from e have cases: "last v \<in> {0x308B, 0x3064, 0x3046, 0x304F, 0x3059, 0x3076, 0x3080, 0x306C, 0x3050}"
    by (simp add: verb_endings_def)
  have t: "te r \<noteq> Inl (ValueError ''invalid verb ending'')"
    using cases by (auto simp: te_def g)
  show ?thesis
    using bv r cases t by (cases vt) (auto simp: te_def g)
qed


text \<open>
  Claim C2 says that \<open>has_ichidan_ending\<close> never raises and answers unknown whenever
  the second-to-last character is an ideograph. On an ideograph followed by a character
  other than ru (U+898B U+305F) the guard of the unknown branch fails and the constructor
  call on the ideograph raises \<open>KeyError\<close>. The error leaves \<open>Inflections.__init__\<close>
  uncaught: kaku written with its kanji (U+66F8 U+304F) as \<open>ICHIDAN\<close> raises \<open>KeyError\<close>,
  where the same verb in kana (U+304B U+304F) raises the \<open>ValueError\<close> of a verb without
  ichidan ending.
\<close>

theorem ichidan_keyerror:
  "has_ichidan_ending [0x898B, 0x305F] = Inl KeyError
   \<and> Inflections_init (Some [0x66F8, 0x304F]) ICHIDAN None None = Inl KeyError
   \<and> Inflections_init (Some [0x304B, 0x304F]) ICHIDAN None None
       = Inl (ValueError ''verb has no ichidan ending'')"
  by (simp add: Inflections_init_def has_ichidan_ending_def getitem_neg_def verb_endings_def
      is_kanji_def re_match_class_def in_class_def JpRE_kanji_def HiraganaLetter_init_def
      by_letter_def rows_def ascii_def dakuten_rules_def handakuten_rules_def)

text \<open>
  Claim C1 says that an ichidan verb whose ending check is unknown is accepted. On miru
  (U+898B U+308B) the check returns \<open>None\<close> and the constructor raises the
  \<open>ValueError\<close> of a verb without ichidan ending.
\<close>
theorem ichidan_unknown_rejected:
  "has_ichidan_ending [0x898B, 0x308B] = Inr None
   \<and> Inflections_init (Some [0x898B, 0x308B]) ICHIDAN None None
       = Inl (ValueError ''verb has no ichidan ending'')"
  by (simp add: Inflections_init_def has_ichidan_ending_def getitem_neg_def verb_endings_def
      is_kanji_def re_match_class_def in_class_def JpRE_kanji_def)

text \<open>
  Claim C4 says that \<open>with_ending\<close> fails with the invalid-column \<open>ValueError\<close> on the
  empty string and on \<open>ai\<close>. On the letter ka both pass the substring guard and the
  table lookup raises \<open>KeyError\<close>.
\<close>
theorem with_ending_substring:
  "HiraganaLetter_init [0x304B]
     = Inr \<lparr>hl_c = [0x304B], hl_row = ascii ''k'', hl_ending = ascii ''a'', hl_dakuten = None\<rparr>
   \<and> with_ending \<lparr>hl_c = [0x304B], hl_row = ascii ''k'', hl_ending = ascii ''a'',
                   hl_dakuten = None\<rparr> (ascii ''ai'') = Inl KeyError
   \<and> with_ending \<lparr>hl_c = [0x304B], hl_row = ascii ''k'', hl_ending = ascii ''a'',
                   hl_dakuten = None\<rparr> [] = Inl KeyError"
  by (simp add: with_ending_def rows_lookup_def HiraganaLetter_init_def by_letter_def rows_def
      ascii_def dakuten_rules_def handakuten_rules_def)

lemma init_godan:
  "2 \<le> length v \<Longrightarrow> last v \<in> set verb_endings \<Longrightarrow> vt \<noteq> ICHIDAN \<Longrightarrow>
   Inflections_init (Some v) vt None None
     = Inr \<lparr>base_verb = v, verb_type = vt, applied_inflections = {}, inflection = None\<rparr>"
proof -
  assume a: "2 \<le> length v" "last v \<in> set verb_endings" "vt \<noteq> ICHIDAN"
  then have "v \<noteq> []" by auto
  with a show ?thesis
    by (simp add: Inflections_init_def getitem_neg_Suc0 str_in_single)
qed

text \<open>Claim C9 on kau, kaku, hanasu, nomu, oyogu and kuru.\<close>
theorem te_after_init_witness:
  "te \<lparr>base_verb = [0x8CB7, 0x3046], verb_type = GODAN, applied_inflections = {},
       inflection = None\<rparr> = Inr [0x8CB7, 0x3063, 0x3066]
   \<and> te \<lparr>base_verb = [0x66F8, 0x304F], verb_type = GODAN, applied_inflections = {},
       inflection = None\<rparr> = Inr [0x66F8, 0x3044, 0x3066]
   \<and> te \<lparr>base_verb = [0x8A71, 0x3059], verb_type = GODAN, applied_inflections = {},
       inflection = None\<rparr> = Inr [0x8A71, 0x3057, 0x3066]
   \<and> te \<lparr>base_verb = [0x98F2, 0x3080], verb_type = GODAN, applied_inflections = {},
       inflection = None\<rparr> = Inr [0x98F2, 0x3093, 0x3067]
   \<and> te \<lparr>base_verb = [0x6CF3, 0x3050], verb_type = GODAN, applied_inflections = {},
       inflection = None\<rparr> = Inr [0x6CF3, 0x3044, 0x3067]
   \<and> te \<lparr>base_verb = [0x6765, 0x308B], verb_type = IRREGULAR, applied_inflections = {},
       inflection = None\<rparr> = Inl NotImplementedError"
  using te_after_init [OF init_godan [of "[0x8CB7, 0x3046]" GODAN]]
    te_after_init [OF init_godan [of "[0x66F8, 0x304F]" GODAN]]
    te_after_init [OF init_godan [of "[0x8A71, 0x3059]" GODAN]]
    te_after_init [OF init_godan [of "[0x98F2, 0x3080]" GODAN]]
    te_after_init [OF init_godan [of "[0x6CF3, 0x3050]" GODAN]]
    te_after_init [OF init_godan [of "[0x6765, 0x308B]" IRREGULAR]]
  by (simp add: verb_endings_def)

section \<open>Properties of the lexer, the grouper and the renderer\<close>










lemma group_step_nonempty:
  assumes "group_step (state, groups, buf) token = Inr (state', groups', buf')"
    and "\<forall>f. KanjiSequence [] f \<notin> set groups"
    and "state = ''buffer kan'' \<longrightarrow> buf \<noteq> []"
  shows "(\<forall>f. KanjiSequence [] f \<notin> set groups') \<and> (state' = ''buffer kan'' \<longrightarrow> buf' \<noteq> [])"
  using assms
  by (cases token) (auto simp: group_step_def split: if_splits sum.splits)

lemma group_loop_nonempty:
  assumes "group_loop (state, groups, buf) tokens = Inr (state', groups', buf')"
    and "\<forall>f. KanjiSequence [] f \<notin> set groups"
    and "state = ''buffer kan'' \<longrightarrow> buf \<noteq> []"
  shows "(\<forall>f. KanjiSequence [] f \<notin> set groups') \<and> (state' = ''buffer kan'' \<longrightarrow> buf' \<noteq> [])"
  using assms
proof (induction tokens arbitrary: state groups buf)
  case Nil
  then show ?case by simp
next
  case (Cons t ts)
  from Cons.prems(1) obtain s1 g1 b1
    where st: "group_step (state, groups, buf) t = Inr (s1, g1, b1)"
      and lp: "group_loop (s1, g1, b1) ts = Inr (state', groups', buf')"
    by (auto split: sum.splits)
  from group_step_nonempty [OF st Cons.prems(2,3)]
  have "\<forall>f. KanjiSequence [] f \<notin> set g1" and "s1 = ''buffer kan'' \<longrightarrow> b1 \<noteq> []"
    by blast+
  with Cons.IH [OF lp] show ?case by blast
qed

text \<open>
  Claim C10. Whenever \<open>group\<close> returns, no node of its result is a \<open>KanjiSequence\<close> with
  an empty list of kanji, whatever its furigana; this covers the run flushed after the
  loop.
\<close>
theorem kanji_run_nonempty:
  assumes "group tokens = Inr gs"
  shows "KanjiSequence [] f \<notin> set gs"
proof -
  from assms obtain s g b
    where l: "group_loop (''empty'', [], []) tokens = Inr (s, g, b)"
    by (auto simp: group_def split: sum.splits)
  from group_loop_nonempty [OF l]
  have i: "\<forall>f. KanjiSequence [] f \<notin> set g" and n: "s = ''buffer kan'' \<longrightarrow> b \<noteq> []"
    by simp_all
  from assms l i n show ?thesis
    by (auto simp: group_def split: if_splits sum.splits)
qed

text \<open>Claim C10 on two kanji, a furigana and a third kanji.\<close>
theorem kanji_run_nonempty_witness:
  "group [Kanji [0x65E5], Kanji [0x672C], Furigana [0x306B, 0x307B, 0x3093], Kanji [0x8A9E]]
     = Inr [KanjiSequence [Kanji [0x65E5], Kanji [0x672C]] (Some (Furigana [0x306B, 0x307B, 0x3093])),
            KanjiSequence [Kanji [0x8A9E]] None]
   \<and> KanjiSequence [] None
       \<notin> set [KanjiSequence [Kanji [0x65E5], Kanji [0x672C]] (Some (Furigana [0x306B, 0x307B, 0x3093])),
               KanjiSequence [Kanji [0x8A9E]] None]"
proof -
  have g: "group [Kanji [0x65E5], Kanji [0x672C], Furigana [0x306B, 0x307B, 0x3093], Kanji [0x8A9E]]
     = Inr [KanjiSequence [Kanji [0x65E5], Kanji [0x672C]] (Some (Furigana [0x306B, 0x307B, 0x3093])),
            KanjiSequence [Kanji [0x8A9E]] None]"
    by (simp add: group_def group_step_def)
  from kanji_run_nonempty [OF g, of None] g show ?thesis by blast
qed

lemma render_all_kanji: "render_all (map Kanji ks) = Inr (concat (map anchor ks))"
  by (induction ks) (simp_all add: anchor_def jisho_link_def)

text \<open>
  Claim C8, as stated, says a run with furigana is rendered as plain glyphs without
  anchor links. A run of one kanji with a furigana renders with the anchor link of that
  kanji inside the ruby element.
\<close>
theorem ruby_keeps_anchors:
  "render_obj (KanjiSequence [Kanji [0x65E5]] (Some (Furigana [0x3072])))
     = Inr (ascii ''<ruby><a href='' @ [0x22] @ ascii ''https://jisho.org/search/'' @ [0x65E5]
            @ ascii ''%20%23kanji'' @ [0x22] @ ascii ''>'' @ [0x65E5] @ ascii ''</a><rt>''
            @ [0x3072] @ ascii ''</rt><ruby>'')
   \<and> (case render_obj (KanjiSequence [Kanji [0x65E5]] (Some (Furigana [0x3072]))) of
        Inl err \<Rightarrow> False
      | Inr out \<Rightarrow> str_in (ascii ''<a href='') out)"
  by (simp add: jisho_link_def ascii_def)

text \<open>
  Claim C8, amended. A \<open>KanjiSequence\<close> of kanji without furigana renders as the
  concatenation of the anchor-link fragments of its characters. With a furigana it
  renders as \<open><ruby>\<close>, the same anchor-link fragments, and the furigana text inside
  \<open><rt>\<close> and \<open></rt>\<close>, followed by the closing of the element.
\<close>
theorem render_kanji_sequence:
  "render_obj (KanjiSequence (map Kanji ks) None) = Inr (concat (map anchor ks))
   \<and> (\<exists>closing. render_obj (KanjiSequence (map Kanji ks) (Some (Furigana t)))
         = Inr (ascii ''<ruby>'' @ concat (map anchor ks) @ ascii ''<rt>'' @ t @ ascii ''</rt>''
                @ closing))"
  by (simp add: render_all_kanji ascii_def)

end
